theory Spec2Isabelle
  imports Complex_Main
begin

section \<open>Data model (shared/schema.ts)\<close>

text \<open>
  Rows of the schema as records. Timestamps are natural numbers (milliseconds), and the
  clock is an argument of every operation that reads it. Decimal columns that the claims
  never inspect are kept as the numbers they render.
\<close>

record User =
  user_id :: nat
  username :: string
  password :: string

record WhatsappUser =
  wu_id :: nat
  phoneNumber :: string
  isActive :: bool
  createdAt :: nat

text \<open>
  \<open>InsertTradingSignal\<close> is the row without \<open>id\<close> and \<open>createdAt\<close>;
  \<open>TradingSignal\<close> extends it, as the spread \<open>{...insertSignal, id, ...}\<close> does.
\<close>

record InsertTradingSignal =
  signalType :: string
  strikePrice :: int
  targetPrice :: real
  stopLoss :: real
  confidence :: int
  reasoning :: string
  expiryDate :: nat
  signalActive :: bool
  whatsappSent :: bool

record TradingSignal = InsertTradingSignal +
  signal_id :: nat
  signalCreatedAt :: nat

record PortfolioPosition =
  position_id :: nat
  symbol :: string
  positionType :: string
  positionStrike :: real
  quantity :: int
  entryPrice :: real
  positionCurrentPrice :: real
  pnl :: real
  positionActive :: bool
  positionCreatedAt :: nat

record MarketData =
  md_id :: nat
  md_symbol :: string
  price :: real
  md_change :: real
  changePercent :: real
  md_volume :: int
  lastUpdated :: nat

record OptionsChain =
  oc_id :: nat
  oc_strikePrice :: real
  callLTP :: "real option"
  callVolume :: "int option"
  putLTP :: "real option"
  putVolume :: "int option"
  oc_expiryDate :: nat
  oc_lastUpdated :: nat

section \<open>The in-memory store (server/storage.ts)\<close>

text \<open>
  A JavaScript \<open>Map\<close> keeps its entries in insertion order and \<open>Array.from(m.values())\<close>
  reads them in that order, so each map is an association list in insertion order.
  \<open>map_set\<close> is \<open>Map.prototype.set\<close>: an existing key keeps its place, a new key goes last.
\<close>

type_synonym ('k, 'v) js_map = "('k \<times> 'v) list"

fun map_set :: "'k \<Rightarrow> 'v \<Rightarrow> ('k, 'v) js_map \<Rightarrow> ('k, 'v) js_map" where
  "map_set k v [] = [(k, v)]"
| "map_set k v ((k', v') # m) = (if k' = k then (k, v) # m else (k', v') # map_set k v m)"

definition map_values :: "('k, 'v) js_map \<Rightarrow> 'v list" where
  "map_values m = map snd m"

text \<open>
  \<open>Array.prototype.find\<close> returns the object itself, and the callers below assign to a
  field of it: the entry that changes is the first one that satisfies the predicate.
\<close>

fun mutate_first :: "('a \<Rightarrow> bool) \<Rightarrow> ('a \<Rightarrow> 'a) \<Rightarrow> 'a list \<Rightarrow> 'a list" where
  "mutate_first P f [] = []"
| "mutate_first P f (x # xs) = (if P x then f x # xs else x # mutate_first P f xs)"

record MemStorage =
  users :: "(nat, User) js_map"
  whatsappUsers :: "(nat, WhatsappUser) js_map"
  tradingSignals :: "(nat, TradingSignal) js_map"
  portfolioPositions :: "(nat, PortfolioPosition) js_map"
  marketData :: "(string, MarketData) js_map"
  optionsChain :: "(string, OptionsChain) js_map"
  currentUserId :: nat
  currentWhatsappUserId :: nat
  currentSignalId :: nat
  currentPositionId :: nat
  currentMarketDataId :: nat
  currentOptionsChainId :: nat

definition createUser :: "string \<Rightarrow> string \<Rightarrow> MemStorage \<Rightarrow> User \<times> MemStorage" where
  "createUser uname pw st =
     (let i = currentUserId st;
          user = \<lparr>user_id = i, username = uname, password = pw\<rparr>
      in (user, st\<lparr>currentUserId := i + 1, users := map_set i user (users st)\<rparr>))"

definition emptyStorage :: MemStorage where
  "emptyStorage =
     \<lparr>users = [], whatsappUsers = [], tradingSignals = [], portfolioPositions = [],
      marketData = [], optionsChain = [],
      currentUserId = 1, currentWhatsappUserId = 1, currentSignalId = 1,
      currentPositionId = 1, currentMarketDataId = 1, currentOptionsChainId = 1\<rparr>"

text \<open>The constructor: empty maps, counters at 1, then the admin user.\<close>

definition newMemStorage :: MemStorage where
  "newMemStorage = snd (createUser ''admin'' ''admin'' emptyStorage)"

text \<open>
  \<open>getUserByUsername\<close> compares with \<open>===\<close>. The argument comes from a request body, so
  it may be absent or not a string: \<open>None\<close> stands for every such value, which is
  strictly equal to no stored name.
\<close>

definition getUserByUsername :: "MemStorage \<Rightarrow> string option \<Rightarrow> User option" where
  "getUserByUsername st uname = find (\<lambda>u. Some (username u) = uname) (map_values (users st))"

definition getAllWhatsappUsers :: "MemStorage \<Rightarrow> WhatsappUser list" where
  "getAllWhatsappUsers st = filter isActive (map_values (whatsappUsers st))"

definition addWhatsappUser :: "nat \<Rightarrow> string \<Rightarrow> MemStorage \<Rightarrow> WhatsappUser \<times> MemStorage" where
  "addWhatsappUser now phone st =
     (let i = currentWhatsappUserId st;
          user = \<lparr>wu_id = i, phoneNumber = phone, isActive = True, createdAt = now\<rparr>
      in (user, st\<lparr>currentWhatsappUserId := i + 1,
                    whatsappUsers := map_set i user (whatsappUsers st)\<rparr>))"

definition removeWhatsappUser :: "string \<Rightarrow> MemStorage \<Rightarrow> bool \<times> MemStorage" where
  "removeWhatsappUser phone st =
     (case find (\<lambda>u. phoneNumber u = phone) (map_values (whatsappUsers st)) of
        Some user \<Rightarrow>
          (True, st\<lparr>whatsappUsers :=
                     mutate_first (\<lambda>(k, u). phoneNumber u = phone)
                       (\<lambda>(k, u). (k, u\<lparr>isActive := False\<rparr>)) (whatsappUsers st)\<rparr>)
      | None \<Rightarrow> (False, st))"

definition createTradingSignal ::
  "nat \<Rightarrow> InsertTradingSignal \<Rightarrow> MemStorage \<Rightarrow> TradingSignal \<times> MemStorage" where
  "createTradingSignal now ins st =
     (let i = currentSignalId st;
          signal = \<lparr>signalType = signalType ins, strikePrice = strikePrice ins,
                    targetPrice = targetPrice ins, stopLoss = stopLoss ins,
                    confidence = confidence ins, reasoning = reasoning ins,
                    expiryDate = expiryDate ins, signalActive = True, whatsappSent = False,
                    signal_id = i, signalCreatedAt = now\<rparr>
      in (signal, st\<lparr>currentSignalId := i + 1,
                      tradingSignals := map_set i signal (tradingSignals st)\<rparr>))"

definition updateSignalWhatsappSent :: "nat \<Rightarrow> MemStorage \<Rightarrow> bool \<times> MemStorage" where
  "updateSignalWhatsappSent i st =
     (case map_of (tradingSignals st) i of
        Some signal \<Rightarrow>
          (True, st\<lparr>tradingSignals :=
                     mutate_first (\<lambda>(k, s). k = i)
                       (\<lambda>(k, s). (k, s\<lparr>whatsappSent := True\<rparr>)) (tradingSignals st)\<rparr>)
      | None \<Rightarrow> (False, st))"

section \<open>The notification sender (WhatsAppService)\<close>

text \<open>
  The remote messaging API is the environment. One call of \<open>fetch\<close> either rejects, or
  answers with a status and a body that \<open>response.json()\<close> parses or not.
  The oracle \<open>net\<close> gives the outcome of the \<open>n\<close>-th request. The text of a message is a
  fixed template around its arguments, so a message is kept as its kind and arguments.
\<close>

record wa_config =
  accessToken :: string
  phoneNumberId :: string

text \<open>A parsed JSON value; an object holds each of its members once.\<close>

datatype json =
    JNull
  | JBool bool
  | JNumber real
  | JString string
  | JArray "json list"
  | JObject "(string \<times> json) list"

datatype fetch_outcome = Rejected | Responded nat "json option"

datatype js_error = NetworkError | ApiError nat | JsonSyntaxError | TypeError

datatype wa_result =
    MockMode              \<comment> \<open>\<open>{ success: true, mockMode: true }\<close>\<close>
  | Swallowed js_error    \<comment> \<open>\<open>{ success: true, error }\<close>\<close>
  | Parsed json           \<comment> \<open>the parsed body of an ok response\<close>

text \<open>The \<open>success\<close> member of a returned value, \<open>None\<close> where it has none.\<close>

definition success_member :: "wa_result \<Rightarrow> json option" where
  "success_member r =
     (case r of
        MockMode \<Rightarrow> Some (JBool True)
      | Swallowed e \<Rightarrow> Some (JBool True)
      | Parsed v \<Rightarrow> (case v of JObject members \<Rightarrow> map_of members ''success'' | _ \<Rightarrow> None))"

text \<open>
  Following the words of the specification, not the code: a success indicator is a
  value whose \<open>success\<close> member is \<open>true\<close>, as in the two objects that \<open>makeRequest\<close>
  builds itself.
\<close>

definition success_shaped :: "wa_result \<Rightarrow> bool" where
  "success_shaped r = (success_member r = Some (JBool True))"

record SignalPayload =
  p_type :: string
  p_strikePrice :: int
  p_confidence :: int
  p_targetPrice :: real
  p_stopLoss :: real
  p_reasoning :: string

datatype wa_text = TradingSignalText SignalPayload | WelcomeText

record wa_data =
  to :: string
  text_body :: wa_text

definition is_digit :: "char \<Rightarrow> bool" where
  "is_digit c = (c \<in> set ''0123456789'')"

text \<open>\<open>phoneNumber.replace(/\D/g, '')\<close>\<close>

definition stripNonDigits :: "string \<Rightarrow> string" where
  "stripNonDigits s = filter is_digit s"

text \<open>The body of the \<open>try\<close> block of \<open>makeRequest\<close>: \<open>Inl\<close> is a throw.\<close>

definition wa_attempt :: "fetch_outcome \<Rightarrow> js_error + wa_result" where
  "wa_attempt out =
     (case out of
        Rejected \<Rightarrow> Inl NetworkError
      | Responded code parsed \<Rightarrow>
          if \<not> (200 \<le> code \<and> code \<le> 299) then Inl (ApiError code)
          else (case parsed of None \<Rightarrow> Inl JsonSyntaxError | Some v \<Rightarrow> Inr (Parsed v)))"

text \<open>
  \<open>makeRequest\<close>: the result and the list of requests made so far, with this one added.
  Without credentials nothing is fetched.
\<close>

definition wa_makeRequest ::
  "wa_config \<Rightarrow> (nat \<Rightarrow> fetch_outcome) \<Rightarrow> wa_data \<Rightarrow> wa_data list
     \<Rightarrow> (js_error + wa_result) \<times> wa_data list" where
  "wa_makeRequest cfg net d reqs =
     ((if accessToken cfg = [] \<or> phoneNumberId cfg = [] then Inr MockMode
       else (case wa_attempt (net (length reqs)) of
               Inl e \<Rightarrow> Inr (Swallowed e)
             | Inr v \<Rightarrow> Inr v)),
      reqs @ [d])"

definition sendTradingSignal ::
  "wa_config \<Rightarrow> (nat \<Rightarrow> fetch_outcome) \<Rightarrow> string \<Rightarrow> SignalPayload \<Rightarrow> wa_data list
     \<Rightarrow> (js_error + wa_result) \<times> wa_data list" where
  "sendTradingSignal cfg net phone signal reqs =
     wa_makeRequest cfg net
       \<lparr>to = stripNonDigits phone, text_body = TradingSignalText signal\<rparr> reqs"

definition sendWelcomeMessage ::
  "wa_config \<Rightarrow> (nat \<Rightarrow> fetch_outcome) \<Rightarrow> string \<Rightarrow> wa_data list
     \<Rightarrow> (js_error + wa_result) \<times> wa_data list" where
  "sendWelcomeMessage cfg net phone reqs =
     wa_makeRequest cfg net \<lparr>to = stripNonDigits phone, text_body = WelcomeText\<rparr> reqs"

text \<open>
  \<open>validatePhoneNumber\<close> tests \<open>/^(\+91|91)?[6-9]\d{9}$/\<close> on the digits of its argument.
  It is declared \<open>async\<close>, so what a caller receives is a promise of this boolean.
\<close>

definition mobileCore :: "string \<Rightarrow> bool" where
  "mobileCore s =
     (case s of [] \<Rightarrow> False
      | c # cs \<Rightarrow> c \<in> set ''6789'' \<and> length cs = 9 \<and> list_all is_digit cs)"

definition phonePattern :: "string \<Rightarrow> bool" where
  "phonePattern s =
     ((take 3 s = ''+91'' \<and> mobileCore (drop 3 s))
      \<or> (take 2 s = ''91'' \<and> mobileCore (drop 2 s))
      \<or> mobileCore s)"

datatype 'a promise = Promise 'a

definition validatePhoneNumber :: "string \<Rightarrow> bool promise" where
  "validatePhoneNumber phone = Promise (phonePattern (stripNonDigits phone))"

text \<open>JavaScript's \<open>!\<close> on a promise: an object is truthy, whatever it resolves to.\<close>

definition js_not :: "'a promise \<Rightarrow> bool" where
  "js_not p = False"

section \<open>The HTTP routes (server/routes.ts)\<close>

record world =
  storage :: MemStorage
  wa_requests :: "wa_data list"

record session =
  userId :: nat
  session_username :: string

datatype body =
    Message string
  | UserBody nat string
  | Subscriber WhatsappUser
  | Subscribers "WhatsappUser list"

type_synonym response = "nat \<times> body"

text \<open>
  \<open>POST /api/auth/login\<close>. The request body is \<open>None\<close> when \<open>req.body\<close> is undefined (the
  destructuring throws and the handler answers 500); its two members are \<open>None\<close> when
  absent or not strings.
\<close>

definition login ::
  "MemStorage \<Rightarrow> (string option \<times> string option) option \<Rightarrow> session option
     \<Rightarrow> response \<times> session option" where
  "login st req sess =
     (case req of
        None \<Rightarrow> ((500, Message ''Login failed''), sess)
      | Some (uname, pw) \<Rightarrow>
          (case getUserByUsername st uname of
             None \<Rightarrow> ((401, Message ''Invalid credentials''), sess)
           | Some user \<Rightarrow>
               if Some (password user) \<noteq> pw
               then ((401, Message ''Invalid credentials''), sess)
               else ((200, UserBody (user_id user) (username user)),
                     Some \<lparr>userId = user_id user, session_username = username user\<rparr>)))"

definition get_whatsapp_users :: "world \<Rightarrow> response" where
  "get_whatsapp_users w = (200, Subscribers (getAllWhatsappUsers (storage w)))"

text \<open>
  \<open>POST /api/whatsapp/users\<close>. \<open>safeParse\<close> succeeds when the body has a string
  \<open>phoneNumber\<close>. The validation test negates the promise itself.
\<close>

definition post_whatsapp_users ::
  "wa_config \<Rightarrow> (nat \<Rightarrow> fetch_outcome) \<Rightarrow> nat \<Rightarrow> string option \<Rightarrow> world
     \<Rightarrow> response \<times> world" where
  "post_whatsapp_users cfg net now req w =
     (case req of
        None \<Rightarrow> ((400, Message ''Invalid phone number format''), w)
      | Some phone \<Rightarrow>
          if js_not (validatePhoneNumber phone)
          then ((400, Message ''Invalid phone number format''), w)
          else if list_ex (\<lambda>u. phoneNumber u = phone) (getAllWhatsappUsers (storage w))
          then ((400, Message ''Phone number already registered''), w)
          else
            (let (user, st') = addWhatsappUser now phone (storage w);
                 (r, reqs') = sendWelcomeMessage cfg net phone (wa_requests w);
                 w' = \<lparr>storage = st', wa_requests = reqs'\<rparr>
             in (case r of
                   Inl e \<Rightarrow> ((500, Message ''Failed to add WhatsApp user''), w')
                 | Inr v \<Rightarrow> ((200, Subscriber user), w'))))"

text \<open>
  \<open>DELETE /api/whatsapp/users/:phoneNumber\<close>. \<open>decodeURIComponent\<close> is the runtime's; it
  is an argument here, \<open>None\<close> where it throws \<open>URIError\<close>.
\<close>

definition delete_whatsapp_user ::
  "(string \<Rightarrow> string option) \<Rightarrow> string \<Rightarrow> world \<Rightarrow> response \<times> world" where
  "delete_whatsapp_user decodeURIComponent param w =
     (case decodeURIComponent param of
        None \<Rightarrow> ((500, Message ''Failed to remove WhatsApp user''), w)
      | Some phone \<Rightarrow>
          (let (success, st') = removeWhatsappUser phone (storage w)
           in if success
              then ((200, Message ''User removed successfully''), w\<lparr>storage := st'\<rparr>)
              else ((404, Message ''User not found''), w\<lparr>storage := st'\<rparr>)))"

text \<open>
  A client's requests against the subscriber endpoints, run one after the other from
  the state the server starts in.
\<close>

datatype api_request =
    PostSubscriber nat "string option"
  | DeleteSubscriber string

definition api_step ::
  "wa_config \<Rightarrow> (nat \<Rightarrow> fetch_outcome) \<Rightarrow> (string \<Rightarrow> string option) \<Rightarrow> api_request
     \<Rightarrow> world \<Rightarrow> response \<times> world" where
  "api_step cfg net dec r w =
     (case r of
        PostSubscriber now req \<Rightarrow> post_whatsapp_users cfg net now req w
      | DeleteSubscriber param \<Rightarrow> delete_whatsapp_user dec param w)"

fun api_run ::
  "wa_config \<Rightarrow> (nat \<Rightarrow> fetch_outcome) \<Rightarrow> (string \<Rightarrow> string option) \<Rightarrow> api_request list
     \<Rightarrow> world \<Rightarrow> world" where
  "api_run cfg net dec [] w = w"
| "api_run cfg net dec (r # rs) w = api_run cfg net dec rs (snd (api_step cfg net dec r w))"

definition newWorld :: world where
  "newWorld = \<lparr>storage = newMemStorage, wa_requests = []\<rparr>"

text \<open>No \<open>WHATSAPP_ACCESS_TOKEN\<close> and no \<open>WHATSAPP_PHONE_NUMBER_ID\<close> in the environment.\<close>

definition noCredentials :: wa_config where
  "noCredentials = \<lparr>accessToken = [], phoneNumberId = []\<rparr>"

section \<open>The market-data accessor (ZerodhaService)\<close>

text \<open>
  JavaScript numbers are modelled as reals, and \<open>Math.random()\<close> as a stream
  \<open>rnd :: nat \<Rightarrow> real\<close> read at a position that each function advances by the number
  of draws it makes. A JSON object of quotes is the list of its members in the order
  \<open>Object.values\<close> reads them.
\<close>

record ZerodhaQuote =
  instrument_token :: int
  last_price :: real
  change :: real
  net_change :: real
  volume :: real

datatype zdata = Undefined | Quotes "(string \<times> ZerodhaQuote) list"

record z_config =
  apiKey :: string
  z_accessToken :: string

text \<open>
  One \<open>fetch\<close> of the market-data API: it rejects, or answers with a status and, when the
  body parses to an object, that object's \<open>data\<close> member (\<open>Undefined\<close> when it has none).
\<close>

datatype z_outcome = ZRejected | ZResponded nat "zdata option"

definition starts_with :: "string \<Rightarrow> string \<Rightarrow> bool" where
  "starts_with sub s = (take (length sub) s = sub)"

text \<open>\<open>String.prototype.includes\<close>\<close>

fun str_includes :: "string \<Rightarrow> string \<Rightarrow> bool" where
  "str_includes [] sub = (sub = [])"
| "str_includes (c # cs) sub = (starts_with sub (c # cs) \<or> str_includes cs sub)"

text \<open>\<open>Array.prototype.join\<close>\<close>

fun join :: "string \<Rightarrow> string list \<Rightarrow> string" where
  "join sep [] = []"
| "join sep [x] = x"
| "join sep (x # y # ys) = x @ sep @ join sep (y # ys)"

text \<open>The decimal text of an integer, as a template literal renders it.\<close>

fun show_nat :: "nat \<Rightarrow> string" where
  "show_nat n =
     (if n < 10 then [''0123456789'' ! n]
      else show_nat (n div 10) @ [''0123456789'' ! (n mod 10)])"

definition show_int :: "int \<Rightarrow> string" where
  "show_int i = (if i < 0 then CHR ''-'' # show_nat (nat (- i)) else show_nat (nat i))"

definition mockNiftyQuote :: ZerodhaQuote where
  "mockNiftyQuote =
     \<lparr>instrument_token = 256265, last_price = 19845.30, change = 156.20,
      net_change = 0.79, volume = 1234567\<rparr>"

text \<open>
  \<open>generateMockOptionsChain\<close>: for the five fixed strikes, a call and a put entry, four
  draws each, in the order the object literals evaluate them.
\<close>

definition mockCall :: "(nat \<Rightarrow> real) \<Rightarrow> nat \<Rightarrow> int \<Rightarrow> nat \<Rightarrow> ZerodhaQuote" where
  "mockCall rnd k strike index =
     \<lparr>instrument_token = 20000000 + strike,
      last_price = max 5 (100 - real index * 25 + rnd k * 20),
      change = (rnd (k + 1) - 0.5) * 10,
      net_change = (rnd (k + 2) - 0.5) * 5,
      volume = of_int \<lfloor>rnd (k + 3) * 500000\<rfloor> + 50000\<rparr>"

definition mockPut :: "(nat \<Rightarrow> real) \<Rightarrow> nat \<Rightarrow> int \<Rightarrow> nat \<Rightarrow> ZerodhaQuote" where
  "mockPut rnd k strike index =
     \<lparr>instrument_token = 30000000 + strike,
      last_price = max 5 (20 + real index * 15 + rnd k * 20),
      change = (rnd (k + 1) - 0.5) * 10,
      net_change = (rnd (k + 2) - 0.5) * 5,
      volume = of_int \<lfloor>rnd (k + 3) * 400000\<rfloor> + 40000\<rparr>"

fun mockEntries ::
  "(nat \<Rightarrow> real) \<Rightarrow> nat \<Rightarrow> nat \<Rightarrow> int list \<Rightarrow> (string \<times> ZerodhaQuote) list" where
  "mockEntries rnd k index [] = []"
| "mockEntries rnd k index (strike # rest) =
     (show_int strike @ ''CE'', mockCall rnd k strike index)
     # (show_int strike @ ''PE'', mockPut rnd (k + 4) strike index)
     # mockEntries rnd (k + 8) (index + 1) rest"

definition generateMockOptionsChain ::
  "(nat \<Rightarrow> real) \<Rightarrow> nat \<Rightarrow> (string \<times> ZerodhaQuote) list \<times> nat" where
  "generateMockOptionsChain rnd k =
     (mockEntries rnd k 0 [19750, 19800, 19850, 19900, 19950], k + 40)"

definition getMockData :: "(nat \<Rightarrow> real) \<Rightarrow> nat \<Rightarrow> string \<Rightarrow> zdata \<times> nat" where
  "getMockData rnd k endpoint =
     (if str_includes endpoint ''quote'' then (Quotes [(''256265'', mockNiftyQuote)], k)
      else if str_includes endpoint ''instruments''
      then (let (entries, k') = generateMockOptionsChain rnd k in (Quotes entries, k'))
      else (Quotes [], k))"

text \<open>The body of the \<open>try\<close> block of the accessor's \<open>makeRequest\<close>.\<close>

definition z_attempt :: "z_outcome \<Rightarrow> js_error + zdata" where
  "z_attempt out =
     (case out of
        ZRejected \<Rightarrow> Inl NetworkError
      | ZResponded code parsed \<Rightarrow>
          if \<not> (200 \<le> code \<and> code \<le> 299) then Inl (ApiError code)
          else (case parsed of None \<Rightarrow> Inl JsonSyntaxError | Some d \<Rightarrow> Inr d))"

definition zerodha_makeRequest ::
  "z_config \<Rightarrow> (string \<Rightarrow> z_outcome) \<Rightarrow> (nat \<Rightarrow> real) \<Rightarrow> nat \<Rightarrow> string \<Rightarrow> zdata \<times> nat" where
  "zerodha_makeRequest cfg znet rnd k endpoint =
     (if apiKey cfg = [] \<or> z_accessToken cfg = [] then getMockData rnd k endpoint
      else (case z_attempt (znet endpoint) of
              Inl e \<Rightarrow> getMockData rnd k endpoint
            | Inr d \<Rightarrow> (d, k)))"

definition getNiftyQuote ::
  "z_config \<Rightarrow> (string \<Rightarrow> z_outcome) \<Rightarrow> (nat \<Rightarrow> real) \<Rightarrow> nat \<Rightarrow> zdata \<times> nat" where
  "getNiftyQuote cfg znet rnd k = zerodha_makeRequest cfg znet rnd k ''/quote?i=NSE:NIFTY 50''"

text \<open>
  \<open>getOptionsChain\<close>. The two-digit year \<open>yy\<close> and the month and day \<open>expiry\<close> of
  \<open>getExpiryString\<close> come from the clock and are arguments.
\<close>

definition instrument :: "string \<Rightarrow> string \<Rightarrow> int \<Rightarrow> string \<Rightarrow> string" where
  "instrument yy expiry strike side = ''NFO:NIFTY'' @ yy @ expiry @ show_int strike @ side"

definition getOptionsChain ::
  "z_config \<Rightarrow> (string \<Rightarrow> z_outcome) \<Rightarrow> (nat \<Rightarrow> real) \<Rightarrow> nat \<Rightarrow> string \<Rightarrow> string
     \<Rightarrow> int list \<Rightarrow> zdata \<times> nat" where
  "getOptionsChain cfg znet rnd k yy expiry strikes =
     (let instruments =
            concat (map (\<lambda>strike. [instrument yy expiry strike ''CE'',
                                    instrument yy expiry strike ''PE'']) strikes);
          instrumentsQuery = join ''&i='' instruments
      in zerodha_makeRequest cfg znet rnd k (''/quote?i='' @ instrumentsQuery))"

text \<open>No \<open>ZERODHA_API_KEY\<close>, \<open>KITE_API_KEY\<close> or access token in the environment.\<close>

definition noZerodhaCredentials :: z_config where
  "noZerodhaCredentials = \<lparr>apiKey = [], z_accessToken = []\<rparr>"

section \<open>The signal generator (AISignalsService)\<close>

record TechnicalIndicators =
  rsi :: real
  sma20 :: real
  sma50 :: real
  ti_volume :: real
  volatility :: real

datatype trend = Bullish | Bearish | Sideways

record MarketConditions =
  trend :: trend
  strength :: real
  momentum :: real

text \<open>
  \<open>Object.values(data)[0]?.member || fallback\<close>: the fallback is taken when the object
  has no member or the number is falsy. A quote member that is missing or not a number
  is a 0 in \<open>ZerodhaQuote\<close>, which \<open>||\<close> replaces like any falsy value.
\<close>

definition firstValue :: "(string \<times> ZerodhaQuote) list \<Rightarrow> ZerodhaQuote option" where
  "firstValue qs = (case qs of [] \<Rightarrow> None | (key, q) # rest \<Rightarrow> Some q)"

definition js_or :: "real option \<Rightarrow> real \<Rightarrow> real" where
  "js_or x fallback = (case x of None \<Rightarrow> fallback | Some v \<Rightarrow> if v = 0 then fallback else v)"

text \<open>\<open>Math.round\<close>: the nearest integer, a half going up.\<close>

definition js_round :: "real \<Rightarrow> int" where
  "js_round x = \<lfloor>x + 1 / 2\<rfloor>"

text \<open>Reading an array at an index: \<open>undefined\<close> outside the array.\<close>

definition array_get :: "'a list \<Rightarrow> int \<Rightarrow> 'a option" where
  "array_get xs i = (if 0 \<le> i \<and> i < int (length xs) then Some (xs ! nat i) else None)"

definition calculateTechnicalIndicators ::
  "(nat \<Rightarrow> real) \<Rightarrow> nat \<Rightarrow> (string \<times> ZerodhaQuote) list \<Rightarrow> TechnicalIndicators" where
  "calculateTechnicalIndicators rnd k quotes =
     (let price = js_or (map_option last_price (firstValue quotes)) 19845;
          vol = js_or (map_option volume (firstValue quotes)) 1000000
      in \<lparr>rsi = 45 + rnd k * 20,
          sma20 = price * (0.98 + rnd (k + 1) * 0.04),
          sma50 = price * (0.96 + rnd (k + 2) * 0.08),
          ti_volume = vol,
          volatility = 15 + rnd (k + 3) * 10\<rparr>)"

definition analyzeMarketConditions ::
  "(nat \<Rightarrow> real) \<Rightarrow> nat \<Rightarrow> TechnicalIndicators \<Rightarrow> MarketConditions" where
  "analyzeMarketConditions rnd k indicators =
     (if rsi indicators > 55 \<and> sma20 indicators > sma50 indicators
      then \<lparr>trend = Bullish, strength = 60 + rnd k * 30, momentum = 55 + rnd (k + 1) * 25\<rparr>
      else if rsi indicators < 45 \<and> sma20 indicators < sma50 indicators
      then \<lparr>trend = Bearish, strength = 60 + rnd k * 30, momentum = 55 + rnd (k + 1) * 25\<rparr>
      else \<lparr>trend = Sideways, strength = 40 + rnd k * 20, momentum = 40 + rnd (k + 1) * 20\<rparr>)"

definition generateReasoning ::
  "string \<Rightarrow> TechnicalIndicators \<Rightarrow> MarketConditions \<Rightarrow> int \<Rightarrow> string" where
  "generateReasoning ty indicators conditions conf =
     (let reasons =
            (if ty = ''CALL''
             then (if trend conditions = Bullish
                   then [''Strong bullish momentum detected''] else [])
                  @ (if rsi indicators < 50 then [''RSI oversold recovery pattern''] else [])
                  @ (if sma20 indicators > sma50 indicators
                     then [''Short-term MA above long-term MA''] else [])
                  @ (if ti_volume indicators > 1500000
                     then [''High volume supporting upward move''] else [])
             else (if trend conditions = Bearish
                   then [''Bearish trend continuation expected''] else [])
                  @ (if rsi indicators > 60
                     then [''RSI overbought, correction likely''] else [])
                  @ (if sma20 indicators < sma50 indicators
                     then [''Short-term MA below long-term MA''] else [])
                  @ (if volatility indicators > 25
                     then [''High volatility favoring downward move''] else []))
            @ (if conf > 90 then [''Multiple confirmations align''] else [])
            @ (if strength conditions > 75 then [''Strong directional bias''] else [])
      in join '', '' (take 2 reasons) @ ''. Trade with proper risk management.'')"

text \<open>
  One turn of the loop of \<open>generateTradingSignals\<close>, six draws. The strike is read at a
  computed index; outside the array it is \<open>undefined\<close> and \<open>strikePrice.toString()\<close>
  throws. \<open>toFixed(2)\<close> of target and stop is not modelled: they stay numbers.
\<close>

definition makeSignal ::
  "(nat \<Rightarrow> real) \<Rightarrow> nat \<Rightarrow> int list \<Rightarrow> TechnicalIndicators \<Rightarrow> MarketConditions \<Rightarrow> nat
     \<Rightarrow> js_error + InsertTradingSignal" where
  "makeSignal rnd k strikes indicators conditions expiry =
     (let isCall = (if trend conditions = Bullish then rnd k > 0.3 else rnd k > 0.7);
          ty = (if isCall then ''CALL'' else ''PUT'');
          idx = (if isCall
                 then \<lfloor>real (length strikes) * 0.6\<rfloor> + \<lfloor>rnd (k + 1) * 2\<rfloor>
                 else \<lfloor>real (length strikes) * 0.4\<rfloor> - \<lfloor>rnd (k + 1) * 2\<rfloor>);
          c0 = (60 :: int);
          c1 = (if strength conditions > 70 then c0 + 15 else c0);
          c2 = (if momentum conditions > 70 then c1 + 10 else c1);
          c3 = (if ti_volume indicators > 2000000 then c2 + 5 else c2);
          c4 = (if volatility indicators < 20 then c3 + 10 else c3);
          c5 = c4 + (\<lfloor>rnd (k + 2) * 20\<rfloor> - 10);
          conf = max 60 (min 98 c5);
          basePrice = 30 + rnd (k + 3) * 40;
          target = basePrice * (1.5 + rnd (k + 4) * 0.8);
          stop = basePrice * (0.4 + rnd (k + 5) * 0.3);
          reason = generateReasoning ty indicators conditions conf
      in (case array_get strikes idx of
            None \<Rightarrow> Inl TypeError
          | Some strike \<Rightarrow>
              Inr \<lparr>signalType = ty, strikePrice = strike, targetPrice = target,
                   stopLoss = stop, confidence = conf, reasoning = reason,
                   expiryDate = expiry, signalActive = True, whatsappSent = False\<rparr>))"

fun signalLoop ::
  "(nat \<Rightarrow> real) \<Rightarrow> nat \<Rightarrow> int list \<Rightarrow> TechnicalIndicators \<Rightarrow> MarketConditions \<Rightarrow> nat
     \<Rightarrow> nat \<Rightarrow> js_error + InsertTradingSignal list" where
  "signalLoop rnd k strikes indicators conditions expiry 0 = Inr []"
| "signalLoop rnd k strikes indicators conditions expiry (Suc n) =
     (case makeSignal rnd k strikes indicators conditions expiry of
        Inl e \<Rightarrow> Inl e
      | Inr signal \<Rightarrow>
          (case signalLoop rnd (k + 6) strikes indicators conditions expiry n of
             Inl e \<Rightarrow> Inl e
           | Inr signals \<Rightarrow> Inr (signal # signals)))"

text \<open>
  \<open>generateTradingSignals\<close>: one draw for the number of signals, then the loop.
  \<open>expiry\<close> is the result of \<open>getNextThursday\<close>, which reads the clock.
\<close>

definition generateTradingSignals ::
  "(nat \<Rightarrow> real) \<Rightarrow> nat \<Rightarrow> int list \<Rightarrow> real \<Rightarrow> TechnicalIndicators \<Rightarrow> MarketConditions
     \<Rightarrow> nat \<Rightarrow> js_error + InsertTradingSignal list" where
  "generateTradingSignals rnd k strikes currentPrice indicators conditions expiry =
     (let numSignals = 1 + \<lfloor>rnd k * 3\<rfloor>
      in signalLoop rnd (k + 1) strikes indicators conditions expiry (nat numSignals))"

definition payloadOf :: "TradingSignal \<Rightarrow> SignalPayload" where
  "payloadOf signal =
     \<lparr>p_type = signalType signal, p_strikePrice = strikePrice signal,
      p_confidence = confidence signal, p_targetPrice = targetPrice signal,
      p_stopLoss = stopLoss signal, p_reasoning = reasoning signal\<rparr>"

text \<open>
  The loop of \<open>sendWhatsAppNotifications\<close> over the subscribers read at its start.
  A throw of \<open>sendTradingSignal\<close> would leave the loop; it is returned as \<open>Some\<close>.
\<close>

fun notifyEach ::
  "wa_config \<Rightarrow> (nat \<Rightarrow> fetch_outcome) \<Rightarrow> SignalPayload \<Rightarrow> WhatsappUser list \<Rightarrow> wa_data list
     \<Rightarrow> js_error option \<times> wa_data list" where
  "notifyEach cfg net p [] reqs = (None, reqs)"
| "notifyEach cfg net p (user # rest) reqs =
     (case sendTradingSignal cfg net (phoneNumber user) p reqs of
        (Inl e, reqs') \<Rightarrow> (Some e, reqs')
      | (Inr v, reqs') \<Rightarrow> notifyEach cfg net p rest reqs')"

text \<open>The \<open>catch\<close> only logs: after a throw the signal is not marked.\<close>

definition sendWhatsAppNotifications ::
  "wa_config \<Rightarrow> (nat \<Rightarrow> fetch_outcome) \<Rightarrow> TradingSignal \<Rightarrow> world \<Rightarrow> world" where
  "sendWhatsAppNotifications cfg net signal w =
     (case notifyEach cfg net (payloadOf signal) (getAllWhatsappUsers (storage w))
             (wa_requests w) of
        (Some e, reqs') \<Rightarrow> w\<lparr>wa_requests := reqs'\<rparr>
      | (None, reqs') \<Rightarrow>
          \<lparr>storage = snd (updateSignalWhatsappSent (signal_id signal) (storage w)),
           wa_requests = reqs'\<rparr>)"

text \<open>
  The body of the loop of \<open>generateSignals\<close>: save the signal, and notify when its
  confidence is 90 or more.
\<close>

definition saveSignal ::
  "wa_config \<Rightarrow> (nat \<Rightarrow> fetch_outcome) \<Rightarrow> nat \<Rightarrow> InsertTradingSignal \<Rightarrow> world \<Rightarrow> world" where
  "saveSignal cfg net now signal w =
     (let (savedSignal, st') = createTradingSignal now signal (storage w);
          w1 = w\<lparr>storage := st'\<rparr>
      in if confidence signal \<ge> 90
         then sendWhatsAppNotifications cfg net savedSignal w1 else w1)"

fun saveSignals ::
  "wa_config \<Rightarrow> (nat \<Rightarrow> fetch_outcome) \<Rightarrow> nat \<Rightarrow> InsertTradingSignal list \<Rightarrow> world \<Rightarrow> world" where
  "saveSignals cfg net now [] w = w"
| "saveSignals cfg net now (signal # rest) w =
     saveSignals cfg net now rest (saveSignal cfg net now signal w)"

text \<open>
  \<open>generateSignals\<close>, one cycle. Every throw inside it happens before the first signal
  is saved and is caught: the state is then the one the cycle started in.
\<close>

record env =
  env_zerodha :: z_config
  env_whatsapp :: wa_config
  env_znet :: "string \<Rightarrow> z_outcome"
  env_net :: "nat \<Rightarrow> fetch_outcome"
  env_rnd :: "nat \<Rightarrow> real"
  env_now :: nat
  env_nextThursday :: nat
  env_yy :: string
  env_expiryString :: string

definition generateSignals :: "env \<Rightarrow> nat \<Rightarrow> world \<Rightarrow> world" where
  "generateSignals e k w =
     (let (niftyData, k1) = getNiftyQuote (env_zerodha e) (env_znet e) (env_rnd e) k
      in (case niftyData of
            Undefined \<Rightarrow> w
          | Quotes qs \<Rightarrow>
              (let currentPrice = js_or (map_option last_price (firstValue qs)) 19845;
                   baseStrike = js_round (currentPrice / 50) * 50;
                   strikes = [baseStrike - 100, baseStrike - 50, baseStrike,
                              baseStrike + 50, baseStrike + 100];
                   (optionsData, k2) =
                      getOptionsChain (env_zerodha e) (env_znet e) (env_rnd e) k1 (env_yy e) (env_expiryString e)
                        strikes;
                   indicators = calculateTechnicalIndicators (env_rnd e) k2 qs;
                   conditions = analyzeMarketConditions (env_rnd e) (k2 + 4) indicators
               in (case generateTradingSignals (env_rnd e) (k2 + 6) strikes currentPrice
                          indicators conditions (env_nextThursday e) of
                     Inl err \<Rightarrow> w
                   | Inr signals \<Rightarrow> saveSignals (env_whatsapp e) (env_net e) (env_now e) signals w))))"

section \<open>Verified properties\<close>

lemmas store_defs = newWorld_def newMemStorage_def emptyStorage_def createUser_def
  noCredentials_def api_step_def post_whatsapp_users_def delete_whatsapp_user_def
  addWhatsappUser_def removeWhatsappUser_def getAllWhatsappUsers_def map_values_def
  sendWelcomeMessage_def wa_makeRequest_def js_not_def get_whatsapp_users_def Let_def

subsection \<open>Login\<close>

text \<open>
  Claim C4. No route creates or changes a user, so the user map is the seeded one in
  every state of the server. There, a login with username \<open>admin\<close> and password
  \<open>admin\<close> answers 200 with the user and sets the session; a login with any other pair
  (a member absent or not a string included) answers 401 and leaves the session as it was.
\<close>

theorem login_seeded:
  assumes "users st = users newMemStorage"
  shows "login st (Some (Some ''admin'', Some ''admin'')) sess
           = ((200, UserBody 1 ''admin''), Some \<lparr>userId = 1, session_username = ''admin''\<rparr>)
         \<and> ((uname, pw) \<noteq> (Some ''admin'', Some ''admin'') \<longrightarrow>
              login st (Some (uname, pw)) sess = ((401, Message ''Invalid credentials''), sess))"
  using assms
  by (auto simp: login_def getUserByUsername_def map_values_def newMemStorage_def
        createUser_def emptyStorage_def Let_def split: option.splits)

theorem login_seeded_witness:
  "login newMemStorage (Some (Some ''admin'', Some ''admin'')) None
     = ((200, UserBody 1 ''admin''), Some \<lparr>userId = 1, session_username = ''admin''\<rparr>)
   \<and> login newMemStorage (Some (Some ''admin'', Some ''hunter2'')) None
       = ((401, Message ''Invalid credentials''), None)"
  using login_seeded [of newMemStorage None "Some ''admin''" "Some ''hunter2''"]
  by simp

subsection \<open>Removing subscribers\<close>

text \<open>
  Claim C7. When the route parameter decodes to a phone number that no subscriber
  record holds, \<open>removeWhatsappUser\<close> returns false, the route answers 404 with
  \<open>User not found\<close>, and the store and the rest of the server state are unchanged.
\<close>

theorem delete_unknown:
  assumes "decodeURIComponent param = Some phone"
      and "\<forall>u \<in> set (map_values (whatsappUsers (storage w))). phoneNumber u \<noteq> phone"
  shows "removeWhatsappUser phone (storage w) = (False, storage w)
         \<and> delete_whatsapp_user decodeURIComponent param w
             = ((404, Message ''User not found''), w)"
proof -
  have "find (\<lambda>u. phoneNumber u = phone) (map_values (whatsappUsers (storage w))) = None"
    using assms(2) by (simp add: find_None_iff)
  then have r: "removeWhatsappUser phone (storage w) = (False, storage w)"
    by (simp add: removeWhatsappUser_def)
  show ?thesis using assms(1) r by (simp add: delete_whatsapp_user_def)
qed

theorem delete_unknown_witness:
  "removeWhatsappUser ''9876543210'' (storage newWorld) = (False, storage newWorld)
   \<and> delete_whatsapp_user Some ''9876543210'' newWorld
       = ((404, Message ''User not found''), newWorld)"
  using delete_unknown [of Some "''9876543210''" "''9876543210''" newWorld]
  by (simp add: store_defs)

text \<open>
  Claim C10. When some record holds the phone number and is inactive,
  \<open>removeWhatsappUser\<close> returns true and the route answers 200 with
  \<open>User removed successfully\<close>, not 404: the lookup does not read the active flag.
\<close>

theorem delete_inactive_succeeds:
  assumes "decodeURIComponent param = Some phone"
      and "u \<in> set (map_values (whatsappUsers (storage w)))"
      and "phoneNumber u = phone" and "\<not> isActive u"
  shows "fst (removeWhatsappUser phone (storage w)) = True
         \<and> fst (delete_whatsapp_user decodeURIComponent param w)
             = (200, Message ''User removed successfully'')"
proof -
  have "find (\<lambda>u. phoneNumber u = phone) (map_values (whatsappUsers (storage w))) \<noteq> None"
    using assms(2,3) by (auto simp: find_None_iff)
  then have r: "fst (removeWhatsappUser phone (storage w)) = True"
    by (auto simp: removeWhatsappUser_def split: option.splits)
  show ?thesis using assms(1) r
    by (simp add: delete_whatsapp_user_def split_beta)
qed

theorem delete_inactive_succeeds_witness:
  "fst (removeWhatsappUser ''9876543210''
          (storage (api_run noCredentials (\<lambda>n. Rejected) Some
             [PostSubscriber 10 (Some ''9876543210''), DeleteSubscriber ''9876543210'']
             newWorld))) = True
   \<and> fst (delete_whatsapp_user Some ''9876543210''
            (api_run noCredentials (\<lambda>n. Rejected) Some
               [PostSubscriber 10 (Some ''9876543210''), DeleteSubscriber ''9876543210'']
               newWorld))
       = (200, Message ''User removed successfully'')"
  using delete_inactive_succeeds [of Some "''9876543210''" "''9876543210''"
          "\<lparr>wu_id = 1, phoneNumber = ''9876543210'', isActive = False, createdAt = 10\<rparr>"
          "api_run noCredentials (\<lambda>n. Rejected) Some
             [PostSubscriber 10 (Some ''9876543210''), DeleteSubscriber ''9876543210'']
             newWorld"]
  by (simp add: store_defs)

subsection \<open>Numbers held by one record\<close>

text \<open>
  What holds of adding, listing and removing. In every state that requests reach from
  the start, the active subscribers have distinct phone numbers, and a number is listed
  exactly once after a POST of it. For a number that no record holds, active or not,
  the POST lists it once and the DELETE after it unlists it. Where all records have
  distinct numbers, removal deactivates exactly the record with the number.
\<close>

lemma map_set_fresh: "k \<notin> fst ` set m \<Longrightarrow> map_set k v m = m @ [(k, v)]"
  by (induction m) auto

lemma mutate_first_keys:
  "map fst (mutate_first (\<lambda>(k, u). P u) (\<lambda>(k, u). (k, f u)) m) = map fst m"
  by (induction m) auto

lemma deactivate_active_subset:
  "set (filter isActive (map snd (mutate_first (\<lambda>(k, u). P u)
          (\<lambda>(k, u). (k, u\<lparr>isActive := False\<rparr>)) m)))
     \<subseteq> set (filter isActive (map snd m))"
  by (induction m) auto

lemma deactivate_keeps_distinct:
  "distinct (map phoneNumber (filter isActive (map snd m))) \<Longrightarrow>
   distinct (map phoneNumber (filter isActive (map snd (mutate_first (\<lambda>(k, u). P u)
          (\<lambda>(k, u). (k, u\<lparr>isActive := False\<rparr>)) m))))"
proof (induction m)
  case Nil
  then show ?case by simp
next
  case (Cons x m)
  obtain k u where x: "x = (k, u)" by (cases x)
  show ?case
  proof (cases "P u")
    case True
    with Cons.prems x show ?thesis by (auto split: if_splits)
  next
    case False
    have "phoneNumber ` set (filter isActive (map snd (mutate_first (\<lambda>(k, u). P u)
          (\<lambda>(k, u). (k, u\<lparr>isActive := False\<rparr>)) m)))
        \<subseteq> phoneNumber ` set (filter isActive (map snd m))"
      using deactivate_active_subset [of P m] by blast
    with False Cons x show ?thesis by (auto split: if_splits)
  qed
qed

lemma api_step_invariant:
  assumes "distinct (map phoneNumber (getAllWhatsappUsers (storage w)))"
      and "\<forall>k \<in> fst ` set (whatsappUsers (storage w)). k < currentWhatsappUserId (storage w)"
  shows "distinct (map phoneNumber (getAllWhatsappUsers (storage (snd (api_step cfg net dec r w)))))
         \<and> (\<forall>k \<in> fst ` set (whatsappUsers (storage (snd (api_step cfg net dec r w)))).
               k < currentWhatsappUserId (storage (snd (api_step cfg net dec r w))))"
proof (cases r)
  case (PostSubscriber now req)
  show ?thesis
  proof (cases req)
    case None
    with PostSubscriber assms show ?thesis
      by (simp add: api_step_def post_whatsapp_users_def)
  next
    case (Some phone)
    show ?thesis
    proof (cases "list_ex (\<lambda>u. phoneNumber u = phone) (getAllWhatsappUsers (storage w))")
      case True
      with PostSubscriber Some assms show ?thesis
        by (simp add: api_step_def post_whatsapp_users_def js_not_def)
    next
      case False
      have fresh: "currentWhatsappUserId (storage w) \<notin> fst ` set (whatsappUsers (storage w))"
        using assms(2) by auto
      have st: "storage (snd (api_step cfg net dec r w))
                  = snd (addWhatsappUser now phone (storage w))"
        using PostSubscriber Some False
        by (simp add: api_step_def post_whatsapp_users_def js_not_def split_beta Let_def
              split: sum.splits)
      have "phone \<notin> phoneNumber ` set (getAllWhatsappUsers (storage w))"
        using False by (auto simp: list_ex_iff)
      with assms fresh show ?thesis
        unfolding st
        by (auto simp: addWhatsappUser_def Let_def map_set_fresh getAllWhatsappUsers_def
              map_values_def)
    qed
  qed
next
  case (DeleteSubscriber param)
  show ?thesis
  proof (cases "dec param")
    case None
    with DeleteSubscriber assms show ?thesis
      by (simp add: api_step_def delete_whatsapp_user_def)
  next
    case (Some phone)
    have st: "storage (snd (api_step cfg net dec r w)) = snd (removeWhatsappUser phone (storage w))"
      using DeleteSubscriber Some
      by (simp add: api_step_def delete_whatsapp_user_def split_beta)
    show ?thesis
    proof (cases "find (\<lambda>u. phoneNumber u = phone) (map_values (whatsappUsers (storage w)))")
      case None
      then have "snd (removeWhatsappUser phone (storage w)) = storage w"
        by (simp add: removeWhatsappUser_def)
      with st assms show ?thesis by simp
    next
      case (Some found)
      let ?m = "mutate_first (\<lambda>(k, u). phoneNumber u = phone)
                   (\<lambda>(k, u). (k, u\<lparr>isActive := False\<rparr>)) (whatsappUsers (storage w))"
      have wu: "whatsappUsers (snd (removeWhatsappUser phone (storage w))) = ?m"
        and cur: "currentWhatsappUserId (snd (removeWhatsappUser phone (storage w)))
                    = currentWhatsappUserId (storage w)"
        using Some by (simp_all add: removeWhatsappUser_def)
      have "map fst ?m = map fst (whatsappUsers (storage w))"
        by (rule mutate_first_keys)
      then have "set (map fst ?m) = set (map fst (whatsappUsers (storage w)))"
        by simp
      then have keys: "fst ` set ?m = fst ` set (whatsappUsers (storage w))"
        by simp
      have d: "distinct (map phoneNumber (filter isActive (map snd ?m)))"
        using assms(1) deactivate_keeps_distinct
        by (simp add: getAllWhatsappUsers_def map_values_def)
      show ?thesis
        unfolding st getAllWhatsappUsers_def map_values_def wu cur keys
        using d assms(2) by simp
    qed
  qed
qed

lemma api_run_invariant:
  assumes "distinct (map phoneNumber (getAllWhatsappUsers (storage w)))"
      and "\<forall>k \<in> fst ` set (whatsappUsers (storage w)). k < currentWhatsappUserId (storage w)"
  shows "distinct (map phoneNumber (getAllWhatsappUsers (storage (api_run cfg net dec rs w))))
         \<and> (\<forall>k \<in> fst ` set (whatsappUsers (storage (api_run cfg net dec rs w))).
               k < currentWhatsappUserId (storage (api_run cfg net dec rs w)))"
  using assms
proof (induction rs arbitrary: w)
  case Nil
  then show ?case by simp
next
  case (Cons r rs)
  from api_step_invariant [OF Cons.prems, of cfg net dec r]
  show ?case using Cons.IH by simp
qed

lemma active_numbers_distinct:
  "distinct (map phoneNumber (getAllWhatsappUsers (storage (api_run cfg net dec rs newWorld))))"
  using api_run_invariant [of newWorld cfg net dec rs]
  by (simp add: newWorld_def newMemStorage_def createUser_def emptyStorage_def
        getAllWhatsappUsers_def map_values_def Let_def)

lemma map_set_member: "(k, v) \<in> set (map_set k v m)"
  by (induction m) auto

lemma distinct_count_one:
  "distinct xs \<Longrightarrow> x \<in> set xs \<Longrightarrow> count_list xs x = 1"
  by (induction xs) auto

lemma api_run_append:
  "api_run cfg net dec (rs @ [r]) w = snd (api_step cfg net dec r (api_run cfg net dec rs w))"
  by (induction rs arbitrary: w) simp_all

lemma add_then_listed_once:
  "count_list (map phoneNumber
      (getAllWhatsappUsers (storage (api_run cfg net dec
          (rs @ [PostSubscriber now (Some phone)]) newWorld)))) phone = 1"
proof -
  let ?w = "api_run cfg net dec rs newWorld"
  let ?w' = "snd (api_step cfg net dec (PostSubscriber now (Some phone)) ?w)"
  have run: "api_run cfg net dec (rs @ [PostSubscriber now (Some phone)]) newWorld = ?w'"
    by (rule api_run_append)
  have d: "distinct (map phoneNumber (getAllWhatsappUsers (storage ?w')))"
    using active_numbers_distinct [of cfg net dec "rs @ [PostSubscriber now (Some phone)]"]
    by (simp only: run)
  have "phone \<in> set (map phoneNumber (getAllWhatsappUsers (storage ?w')))"
  proof (cases "list_ex (\<lambda>u. phoneNumber u = phone) (getAllWhatsappUsers (storage ?w))")
    case True
    then show ?thesis
      by (auto simp: api_step_def post_whatsapp_users_def js_not_def list_ex_iff)
  next
    case False
    then have "storage ?w' = snd (addWhatsappUser now phone (storage ?w))"
      by (simp add: api_step_def post_whatsapp_users_def js_not_def split_beta Let_def
            split: sum.splits)
    moreover have "(currentWhatsappUserId (storage ?w),
                     \<lparr>wu_id = currentWhatsappUserId (storage ?w), phoneNumber = phone,
                      isActive = True, createdAt = now\<rparr>)
                   \<in> set (map_set (currentWhatsappUserId (storage ?w))
                            \<lparr>wu_id = currentWhatsappUserId (storage ?w), phoneNumber = phone,
                             isActive = True, createdAt = now\<rparr> (whatsappUsers (storage ?w)))"
      by (rule map_set_member)
    ultimately show ?thesis
      by (force simp: addWhatsappUser_def Let_def getAllWhatsappUsers_def map_values_def)
  qed
  with d show ?thesis
    by (simp only: run distinct_count_one)
qed

lemma find_append_fresh:
  "\<forall>x \<in> set xs. \<not> P x \<Longrightarrow> P y \<Longrightarrow> find P (xs @ [y]) = Some y"
  by (induction xs) auto

lemma mutate_first_append_fresh:
  "\<forall>x \<in> set xs. \<not> P x \<Longrightarrow> P y \<Longrightarrow> mutate_first P f (xs @ [y]) = xs @ [f y]"
  by (induction xs) auto

lemma fresh_number_round_trip:
  assumes "\<forall>u \<in> set (map_values (whatsappUsers (storage w))). phoneNumber u \<noteq> phone"
      and "\<forall>k \<in> fst ` set (whatsappUsers (storage w)). k < currentWhatsappUserId (storage w)"
      and "dec param = Some phone"
  shows "count_list (map phoneNumber (getAllWhatsappUsers
            (storage (snd (post_whatsapp_users cfg net now (Some phone) w))))) phone = 1
         \<and> phone \<notin> phoneNumber ` set (getAllWhatsappUsers
              (storage (snd (delete_whatsapp_user dec param
                 (snd (post_whatsapp_users cfg net now (Some phone) w))))))"
proof -
  let ?m = "whatsappUsers (storage w)"
  let ?u = "\<lparr>wu_id = currentWhatsappUserId (storage w), phoneNumber = phone,
             isActive = True, createdAt = now\<rparr>"
  let ?w1 = "snd (post_whatsapp_users cfg net now (Some phone) w)"
  have none: "\<forall>x \<in> set ?m. \<not> (case x of (k, u) \<Rightarrow> phoneNumber u = phone)"
    using assms(1) by (auto simp: map_values_def)
  have fresh: "currentWhatsappUserId (storage w) \<notin> fst ` set ?m"
    using assms(2) by auto
  have "\<not> list_ex (\<lambda>u. phoneNumber u = phone) (getAllWhatsappUsers (storage w))"
    using assms(1) by (auto simp: list_ex_iff getAllWhatsappUsers_def)
  then have "storage ?w1 = snd (addWhatsappUser now phone (storage w))"
    by (simp add: post_whatsapp_users_def js_not_def split_beta Let_def split: sum.splits)
  then have m1: "whatsappUsers (storage ?w1) = ?m @ [(currentWhatsappUserId (storage w), ?u)]"
    using fresh by (simp add: addWhatsappUser_def Let_def map_set_fresh)
  have c: "count_list (map phoneNumber (filter isActive (map snd ?m))) phone = 0"
    using assms(1) by (auto simp: map_values_def count_list_0_iff)
  have first: "count_list (map phoneNumber (getAllWhatsappUsers (storage ?w1))) phone = 1"
    using c by (simp add: getAllWhatsappUsers_def map_values_def m1)
  have f: "find (\<lambda>u. phoneNumber u = phone) (map_values (whatsappUsers (storage ?w1))) = Some ?u"
    using assms(1) by (simp add: m1 map_values_def find_append_fresh)
  have m2: "whatsappUsers (snd (removeWhatsappUser phone (storage ?w1)))
              = ?m @ [(currentWhatsappUserId (storage w), ?u\<lparr>isActive := False\<rparr>)]"
    using mutate_first_append_fresh [OF none, of "(currentWhatsappUserId (storage w), ?u)"
            "\<lambda>(k, u). (k, u\<lparr>isActive := False\<rparr>)"]
    by (simp only: removeWhatsappUser_def f option.case snd_conv) (simp add: m1)
  have "storage (snd (delete_whatsapp_user dec param ?w1))
          = snd (removeWhatsappUser phone (storage ?w1))"
    using assms(3) by (simp add: delete_whatsapp_user_def split_beta)
  then have second: "phone \<notin> phoneNumber ` set (getAllWhatsappUsers
              (storage (snd (delete_whatsapp_user dec param ?w1))))"
    using assms(1) by (auto simp: getAllWhatsappUsers_def map_values_def m2)
  from first second show ?thesis by simp
qed

lemma mutate_first_unique:
  "distinct (map g xs) \<Longrightarrow> y \<in> set xs \<Longrightarrow>
   mutate_first (\<lambda>x. g x = g y) f xs = map (\<lambda>x. if x = y then f x else x) xs"
proof (induction xs)
  case Nil
  then show ?case by simp
next
  case (Cons x xs)
  show ?case
  proof (cases "x = y")
    case True
    have "map (\<lambda>x. if x = y then f x else x) xs = xs"
      using Cons.prems(1) True by (intro map_idI) auto
    with True show ?thesis by simp
  next
    case False
    with Cons.prems have "y \<in> set xs" "g x \<noteq> g y" by auto
    with Cons False show ?thesis by simp
  qed
qed

lemma removeWhatsappUser_unique_number:
  assumes "distinct (map phoneNumber (map_values (whatsappUsers st)))"
      and "(k, u) \<in> set (whatsappUsers st)"
  shows "removeWhatsappUser (phoneNumber u) st
           = (True, st\<lparr>whatsappUsers :=
                 map (\<lambda>x. if x = (k, u) then (k, u\<lparr>isActive := False\<rparr>) else x)
                   (whatsappUsers st)\<rparr>)"
proof -
  have d: "distinct (map (\<lambda>x. phoneNumber (snd x)) (whatsappUsers st))"
    using assms(1) by (simp add: map_values_def comp_def)
  have p: "(\<lambda>(k', u'). phoneNumber u' = phoneNumber u)
             = (\<lambda>x. phoneNumber (snd x) = phoneNumber (snd (k, u)))"
    by auto
  have "mutate_first (\<lambda>(k', u'). phoneNumber u' = phoneNumber u)
          (\<lambda>(k', u'). (k', u'\<lparr>isActive := False\<rparr>)) (whatsappUsers st)
        = map (\<lambda>x. if x = (k, u) then (\<lambda>(k', u'). (k', u'\<lparr>isActive := False\<rparr>)) x else x)
            (whatsappUsers st)"
    unfolding p by (rule mutate_first_unique [OF d assms(2)])
  also have "\<dots> = map (\<lambda>x. if x = (k, u) then (k, u\<lparr>isActive := False\<rparr>) else x)
                     (whatsappUsers st)"
    by (intro map_cong) auto
  finally have m: "mutate_first (\<lambda>(k', u'). phoneNumber u' = phoneNumber u)
          (\<lambda>(k', u'). (k', u'\<lparr>isActive := False\<rparr>)) (whatsappUsers st)
        = map (\<lambda>x. if x = (k, u) then (k, u\<lparr>isActive := False\<rparr>) else x)
            (whatsappUsers st)" .
  have "u \<in> set (map_values (whatsappUsers st))"
    using assms(2) by (force simp: map_values_def)
  then have "find (\<lambda>u'. phoneNumber u' = phoneNumber u) (map_values (whatsappUsers st)) \<noteq> None"
    by (auto simp: find_None_iff)
  then show ?thesis
    by (auto simp: removeWhatsappUser_def m split: option.splits)
qed

subsection \<open>Re-adding a removed number\<close>

text \<open>
  Claim C8 fails on the code. A number is added, removed and added again through the
  routes: the store then holds two subscriber records with that phone number, the first
  inactive and the second active. The duplicate test of the POST route reads the active
  records only.
\<close>

theorem readd_duplicates_phone:
  "map (\<lambda>u. (wu_id u, phoneNumber u, isActive u))
     (map_values (whatsappUsers (storage (api_run noCredentials (\<lambda>n. Rejected) Some
        [PostSubscriber 10 (Some ''9876543210''), DeleteSubscriber ''9876543210'',
         PostSubscriber 20 (Some ''9876543210'')] newWorld))))
   = [(1, ''9876543210'', False), (2, ''9876543210'', True)]"
  by (simp add: store_defs)

text \<open>
  Claim C3 fails on the code. The number matches the validation pattern. It is added,
  removed and added again, and then removed: the removal answers 200, and the list of
  subscribers still holds the number, because the removal found the first, inactive
  record.
\<close>

theorem remove_after_readd_still_listed:
  "phonePattern (stripNonDigits ''9876543210'')
   \<and> fst (api_step noCredentials (\<lambda>n. Rejected) Some (DeleteSubscriber ''9876543210'')
           (api_run noCredentials (\<lambda>n. Rejected) Some
              [PostSubscriber 10 (Some ''9876543210''), DeleteSubscriber ''9876543210'',
               PostSubscriber 20 (Some ''9876543210'')] newWorld))
       = (200, Message ''User removed successfully'')
   \<and> get_whatsapp_users (api_run noCredentials (\<lambda>n. Rejected) Some
        [PostSubscriber 10 (Some ''9876543210''), DeleteSubscriber ''9876543210'',
         PostSubscriber 20 (Some ''9876543210''), DeleteSubscriber ''9876543210''] newWorld)
       = (200, Subscribers
            [\<lparr>wu_id = 2, phoneNumber = ''9876543210'', isActive = True, createdAt = 20\<rparr>])"
  by (simp add: store_defs phonePattern_def stripNonDigits_def mobileCore_def is_digit_def)

text \<open>
  Claim C9 fails on the code. In the store reached by adding, removing and adding the
  number again, the second record is present and active. Removing it by its phone
  number returns true and leaves the whole store as it was: the record is still active.
\<close>

theorem remove_duplicate_keeps_active:
  "map_of (whatsappUsers (storage (api_run noCredentials (\<lambda>n. Rejected) Some
        [PostSubscriber 10 (Some ''9876543210''), DeleteSubscriber ''9876543210'',
         PostSubscriber 20 (Some ''9876543210'')] newWorld))) 2
     = Some \<lparr>wu_id = 2, phoneNumber = ''9876543210'', isActive = True, createdAt = 20\<rparr>
   \<and> removeWhatsappUser ''9876543210''
        (storage (api_run noCredentials (\<lambda>n. Rejected) Some
           [PostSubscriber 10 (Some ''9876543210''), DeleteSubscriber ''9876543210'',
            PostSubscriber 20 (Some ''9876543210'')] newWorld))
     = (True, storage (api_run noCredentials (\<lambda>n. Rejected) Some
           [PostSubscriber 10 (Some ''9876543210''), DeleteSubscriber ''9876543210'',
            PostSubscriber 20 (Some ''9876543210'')] newWorld))"
  by (simp add: store_defs)

subsection \<open>The notification sender never throws\<close>

lemma wa_makeRequest_result:
  "wa_makeRequest cfg net d reqs =
     (Inr (if accessToken cfg = [] \<or> phoneNumberId cfg = [] then MockMode
           else (case net (length reqs) of
                   Rejected \<Rightarrow> Swallowed NetworkError
                 | Responded code parsed \<Rightarrow>
                     if \<not> (200 \<le> code \<and> code \<le> 299) then Swallowed (ApiError code)
                     else (case parsed of
                             None \<Rightarrow> Swallowed JsonSyntaxError
                           | Some v \<Rightarrow> Parsed v))),
      reqs @ [d])"
  by (simp add: wa_makeRequest_def wa_attempt_def split: fetch_outcome.splits option.splits)

text \<open>
  Claim C6 fails on the code where the remote call succeeds. With credentials and a
  200 response whose body is \<open>{"success": false}\<close>, \<open>sendTradingSignal\<close> returns that
  body as it is, which is not a success-shaped value.
\<close>

theorem ok_response_not_success_shaped:
  "fst (sendTradingSignal \<lparr>accessToken = ''token'', phoneNumberId = ''1''\<rparr>
          (\<lambda>n. Responded 200 (Some (JObject [(''success'', JBool False)])))
          ''9876543210''
          \<lparr>p_type = ''CALL'', p_strikePrice = 19900, p_confidence = 95,
           p_targetPrice = 90, p_stopLoss = 20, p_reasoning = ''r''\<rparr> [])
     = Inr (Parsed (JObject [(''success'', JBool False)]))
   \<and> \<not> success_shaped (Parsed (JObject [(''success'', JBool False)]))"
  by (simp add: sendTradingSignal_def wa_makeRequest_result success_shaped_def
        success_member_def)

text \<open>
  Claim C6, amended. \<open>makeRequest\<close>, and \<open>sendTradingSignal\<close> through it, return a
  value for every recipient, payload, configuration and outcome of the remote call, and
  never throw. Without credentials the value is \<open>{success: true, mockMode: true}\<close>;
  when the fetch rejects, the status is not ok or the body does not parse, it is
  \<open>{success: true, error}\<close>; both are success-shaped. When the remote call succeeds
  the value is the parsed body of the response, unchanged, whatever its shape.
\<close>

theorem sendTradingSignal_soft_success:
  "(\<exists>v. fst (wa_makeRequest cfg net d reqs) = Inr v)
   \<and> (\<exists>v. fst (sendTradingSignal cfg net phone signal reqs) = Inr v
          \<and> (if accessToken cfg = [] \<or> phoneNumberId cfg = []
              then v = MockMode \<and> success_shaped v
              else (case net (length reqs) of
                      Rejected \<Rightarrow> v = Swallowed NetworkError \<and> success_shaped v
                    | Responded code parsed \<Rightarrow>
                        if \<not> (200 \<le> code \<and> code \<le> 299)
                        then v = Swallowed (ApiError code) \<and> success_shaped v
                        else (case parsed of
                                None \<Rightarrow> v = Swallowed JsonSyntaxError \<and> success_shaped v
                              | Some b \<Rightarrow> v = Parsed b))))"
  by (simp add: sendTradingSignal_def wa_makeRequest_result success_shaped_def
        success_member_def split: fetch_outcome.splits option.splits)

theorem sendTradingSignal_soft_success_witness:
  "fst (sendTradingSignal noCredentials (\<lambda>n. Rejected) ''9876543210''
          \<lparr>p_type = ''CALL'', p_strikePrice = 19900, p_confidence = 95,
           p_targetPrice = 90, p_stopLoss = 20, p_reasoning = ''r''\<rparr> []) = Inr MockMode
   \<and> success_shaped MockMode
   \<and> fst (sendTradingSignal \<lparr>accessToken = ''token'', phoneNumberId = ''1''\<rparr>
            (\<lambda>n. Responded 500 None) ''9876543210''
            \<lparr>p_type = ''CALL'', p_strikePrice = 19900, p_confidence = 95,
             p_targetPrice = 90, p_stopLoss = 20, p_reasoning = ''r''\<rparr> [])
       = Inr (Swallowed (ApiError 500))
   \<and> success_shaped (Swallowed (ApiError 500))
   \<and> fst (sendTradingSignal \<lparr>accessToken = ''token'', phoneNumberId = ''1''\<rparr>
            (\<lambda>n. Responded 200 (Some (JObject [(''messaging_product'', JString ''whatsapp'')])))
            ''9876543210''
            \<lparr>p_type = ''CALL'', p_strikePrice = 19900, p_confidence = 95,
             p_targetPrice = 90, p_stopLoss = 20, p_reasoning = ''r''\<rparr> [])
       = Inr (Parsed (JObject [(''messaging_product'', JString ''whatsapp'')]))"
  using sendTradingSignal_soft_success [of noCredentials "\<lambda>n. Rejected" _ "[]" "''9876543210''"
          "\<lparr>p_type = ''CALL'', p_strikePrice = 19900, p_confidence = 95,
            p_targetPrice = 90, p_stopLoss = 20, p_reasoning = ''r''\<rparr>"]
        sendTradingSignal_soft_success [of "\<lparr>accessToken = ''token'', phoneNumberId = ''1''\<rparr>"
          "\<lambda>n. Responded 500 None" _ "[]" "''9876543210''"
          "\<lparr>p_type = ''CALL'', p_strikePrice = 19900, p_confidence = 95,
            p_targetPrice = 90, p_stopLoss = 20, p_reasoning = ''r''\<rparr>"]
        sendTradingSignal_soft_success [of "\<lparr>accessToken = ''token'', phoneNumberId = ''1''\<rparr>"
          "\<lambda>n. Responded 200 (Some (JObject [(''messaging_product'', JString ''whatsapp'')]))"
          _ "[]" "''9876543210''"
          "\<lparr>p_type = ''CALL'', p_strikePrice = 19900, p_confidence = 95,
            p_targetPrice = 90, p_stopLoss = 20, p_reasoning = ''r''\<rparr>"]
  by (auto simp: noCredentials_def)

subsection \<open>The options chain without credentials\<close>

lemma quote_endpoint_includes_quote: "str_includes (''/quote?i='' @ q) ''quote''"
  by (simp add: starts_with_def)

lemma getMockData_quote:
  "getMockData rnd k (''/quote?i='' @ q) = (Quotes [(''256265'', mockNiftyQuote)], k)"
  using quote_endpoint_includes_quote [of q] by (simp only: getMockData_def if_True)

lemma getOptionsChain_without_credentials:
  assumes "apiKey cfg = [] \<or> z_accessToken cfg = []"
  shows "getOptionsChain cfg znet rnd k yy expiry strikes
           = (Quotes [(''256265'', mockNiftyQuote)], k)"
  using assms
  by (simp only: getOptionsChain_def zerodha_makeRequest_def Let_def getMockData_quote if_True)

text \<open>
  Claim C5 fails on the code. Without credentials, and with credentials when the remote
  call is rejected, \<open>getOptionsChain\<close> for the strike 19750 returns the mock quote of the
  index, one entry under the key \<open>256265\<close>, which is no entry for 19750: the endpoint it
  builds starts with \<open>/quote\<close>, so \<open>getMockData\<close> takes its first branch and never
  reaches \<open>generateMockOptionsChain\<close>.
\<close>

theorem options_chain_fallback_is_index_quote:
  "fst (getOptionsChain noZerodhaCredentials znet rnd k yy expiry [19750])
     = Quotes [(''256265'', mockNiftyQuote)]
   \<and> fst (getOptionsChain \<lparr>apiKey = ''key'', z_accessToken = ''token''\<rparr>
            (\<lambda>endpoint. ZRejected) rnd k yy expiry [19750])
     = Quotes [(''256265'', mockNiftyQuote)]
   \<and> \<not> str_includes ''256265'' (show_int 19750)"
  by (simp add: getOptionsChain_def zerodha_makeRequest_def getMockData_def z_attempt_def
        noZerodhaCredentials_def starts_with_def Let_def show_int_def)

subsection \<open>Confidence of generated signals\<close>

lemma makeSignal_confidence:
  assumes "makeSignal rnd k strikes indicators conditions expiry = Inr s"
  shows "60 \<le> confidence s \<and> confidence s \<le> 98"
  using assms unfolding makeSignal_def Let_def
  by (auto split: option.splits split del: if_split)

lemma signalLoop_confidence:
  "signalLoop rnd k strikes indicators conditions expiry n = Inr signals \<Longrightarrow>
   length signals = n \<and> (\<forall>s \<in> set signals. 60 \<le> confidence s \<and> confidence s \<le> 98)"
proof (induction n arbitrary: k signals)
  case 0
  then show ?case by simp
next
  case (Suc n)
  from Suc.prems obtain s rest where
    s: "makeSignal rnd k strikes indicators conditions expiry = Inr s" and
    rest: "signalLoop rnd (k + 6) strikes indicators conditions expiry n = Inr rest" and
    eq: "signals = s # rest"
    by (auto split: sum.splits)
  from Suc.IH [OF rest] makeSignal_confidence [OF s] eq show ?case by simp
qed

lemma floor2:
  fixes r :: real
  assumes "0 \<le> r" "r < 1"
  shows "\<lfloor>r * 2\<rfloor> = 0 \<or> \<lfloor>r * 2\<rfloor> = 1"
proof -
  have "0 \<le> \<lfloor>r * 2\<rfloor>" using assms by simp
  moreover have "\<lfloor>r * 2\<rfloor> < 2" using assms by (simp add: floor_less_iff)
  ultimately show ?thesis by arith
qed

lemma floor3:
  fixes r :: real
  assumes "0 \<le> r" "r < 1"
  shows "0 \<le> \<lfloor>r * 3\<rfloor> \<and> \<lfloor>r * 3\<rfloor> \<le> 2"
proof -
  have "0 \<le> \<lfloor>r * 3\<rfloor>" using assms by simp
  moreover have "\<lfloor>r * 3\<rfloor> < 3" using assms by (simp add: floor_less_iff)
  ultimately show ?thesis by arith
qed

lemma strike_index_in_range:
  fixes rnd :: "nat \<Rightarrow> real"
  assumes "0 \<le> rnd (k + 1) \<and> rnd (k + 1) < 1" and "length strikes = 5"
  shows "\<exists>v. array_get strikes
           (if c then \<lfloor>real (length strikes) * 0.6\<rfloor> + \<lfloor>rnd (k + 1) * 2\<rfloor>
            else \<lfloor>real (length strikes) * 0.4\<rfloor> - \<lfloor>rnd (k + 1) * 2\<rfloor>) = Some v"
proof -
  have f: "\<lfloor>rnd (k + 1) * 2\<rfloor> = 0 \<or> \<lfloor>rnd (k + 1) * 2\<rfloor> = 1"
    using assms(1) floor2 by blast
  have a: "\<lfloor>(5::real) * 0.6\<rfloor> = 3" by simp
  have b: "\<lfloor>(5::real) * 0.4\<rfloor> = 2" by simp
  from f show ?thesis
  proof
    assume "\<lfloor>rnd (k + 1) * 2\<rfloor> = 0"
    then show ?thesis using a b assms(2) by (simp add: array_get_def)
  next
    assume "\<lfloor>rnd (k + 1) * 2\<rfloor> = 1"
    then show ?thesis using a b assms(2) by (simp add: array_get_def)
  qed
qed

lemma makeSignal_returns:
  assumes "\<forall>n. 0 \<le> rnd n \<and> rnd n < 1" and "length strikes = 5"
  shows "\<exists>s. makeSignal rnd k strikes indicators conditions expiry = Inr s"
proof -
  have r: "0 \<le> rnd (k + 1) \<and> rnd (k + 1) < 1" using assms(1) by blast
  obtain v where v: "array_get strikes
           (if (if trend conditions = Bullish then rnd k > 0.3 else rnd k > 0.7)
            then \<lfloor>real (length strikes) * 0.6\<rfloor> + \<lfloor>rnd (k + 1) * 2\<rfloor>
            else \<lfloor>real (length strikes) * 0.4\<rfloor> - \<lfloor>rnd (k + 1) * 2\<rfloor>) = Some v"
    using strike_index_in_range [of rnd k strikes] r assms(2) by blast
  show ?thesis
    unfolding makeSignal_def Let_def
    by (simp only: v option.case) blast
qed

lemma signalLoop_returns:
  assumes "\<forall>n. 0 \<le> rnd n \<and> rnd n < 1" and "length strikes = 5"
  shows "\<exists>signals. signalLoop rnd k strikes indicators conditions expiry n = Inr signals"
proof (induction n arbitrary: k)
  case 0
  then show ?case by simp
next
  case (Suc n)
  obtain s where s: "makeSignal rnd k strikes indicators conditions expiry = Inr s"
    using makeSignal_returns [OF assms] by blast
  obtain rest where "signalLoop rnd (k + 6) strikes indicators conditions expiry n = Inr rest"
    using Suc.IH by blast
  with s show ?case by simp
qed

lemma generated_confidence:
  assumes "generateTradingSignals rnd k strikes currentPrice indicators conditions expiry = Inr signals"
      and "s \<in> set signals"
  shows "60 \<le> confidence s \<and> confidence s \<le> 98"
  using assms signalLoop_confidence by (fastforce simp: generateTradingSignals_def)

text \<open>
  Claim C2. For every stream of draws in \<open>[0, 1)\<close>, as \<open>Math.random\<close> gives them, and
  the five strikes of a cycle, \<open>generateTradingSignals\<close> returns between one and three
  signals, and the confidence of each is an integer from 60 to 98.
\<close>

theorem confidence_in_range:
  assumes "\<forall>n. 0 \<le> rnd n \<and> rnd n < 1" and "length strikes = 5"
  shows "\<exists>signals.
           generateTradingSignals rnd k strikes currentPrice indicators conditions expiry
             = Inr signals
           \<and> 1 \<le> length signals \<and> length signals \<le> 3
           \<and> (\<forall>s \<in> set signals. 60 \<le> confidence s \<and> confidence s \<le> 98)"
proof -
  let ?n = "nat (1 + \<lfloor>rnd k * 3\<rfloor>)"
  have r: "0 \<le> \<lfloor>rnd k * 3\<rfloor> \<and> \<lfloor>rnd k * 3\<rfloor> \<le> 2"
    using assms(1) floor3 by blast
  obtain signals where
    l: "signalLoop rnd (k + 1) strikes indicators conditions expiry ?n = Inr signals"
    using signalLoop_returns [OF assms] by blast
  have len: "length signals = ?n"
    and conf: "\<forall>s \<in> set signals. 60 \<le> confidence s \<and> confidence s \<le> 98"
    using signalLoop_confidence [OF l] by blast+
  have "1 \<le> ?n \<and> ?n \<le> 3" using r by arith
  with len have "1 \<le> length signals \<and> length signals \<le> 3" by simp
  with l conf show ?thesis by (simp add: generateTradingSignals_def)
qed

theorem confidence_in_range_witness:
  "(\<forall>n. (0::real) \<le> (\<lambda>n. 99 / 100) n \<and> (\<lambda>n. 99 / 100) n < (1::real))
   \<and> length [19750, 19800, 19850, 19900, 19950 :: int] = 5
   \<and> map confidence
        (projr (generateTradingSignals (\<lambda>n. 99 / 100) 0 [19750, 19800, 19850, 19900, 19950] 19845
           \<lparr>rsi = 60, sma20 = 2, sma50 = 1, ti_volume = 1234567, volatility = 16\<rparr>
           \<lparr>trend = Bullish, strength = 80, momentum = 75\<rparr> 7))
       = [98, 98, 98]"
  using confidence_in_range [of "\<lambda>n. 99 / 100" "[19750, 19800, 19850, 19900, 19950]" 0 19845
           "\<lparr>rsi = 60, sma20 = 2, sma50 = 1, ti_volume = 1234567, volatility = 16\<rparr>"
           "\<lparr>trend = Bullish, strength = 80, momentum = 75\<rparr>" 7]
  by (simp add: generateTradingSignals_def makeSignal_def array_get_def Let_def
        generateReasoning_def eval_nat_numeral)

subsection \<open>Notification of high-confidence signals\<close>


lemma map_of_mutate_key:
  "map_of (mutate_first (\<lambda>(k, s). k = i) (\<lambda>(k, s). (k, f s)) m) k'
     = (if k' = i then map_option f (map_of m i) else map_of m k')"
  by (induction m) auto

lemma sendTradingSignal_returns:
  "\<exists>v. sendTradingSignal cfg net phone p reqs
         = (Inr v, reqs @ [\<lparr>to = stripNonDigits phone, text_body = TradingSignalText p\<rparr>])"
  unfolding sendTradingSignal_def by (subst wa_makeRequest_result) blast

lemma notifyEach_all:
  "notifyEach cfg net p subscribers reqs =
     (None, reqs @ map (\<lambda>u. \<lparr>to = stripNonDigits (phoneNumber u),
                               text_body = TradingSignalText p\<rparr>) subscribers)"
proof (induction subscribers arbitrary: reqs)
  case Nil
  then show ?case by simp
next
  case (Cons u rest)
  obtain v where "sendTradingSignal cfg net (phoneNumber u) p reqs
         = (Inr v, reqs @ [\<lparr>to = stripNonDigits (phoneNumber u), text_body = TradingSignalText p\<rparr>])"
    using sendTradingSignal_returns by blast
  then show ?case by (simp add: Cons.IH)
qed

lemma sendWhatsAppNotifications_eq:
  "sendWhatsAppNotifications cfg net signal w =
     \<lparr>storage = snd (updateSignalWhatsappSent (signal_id signal) (storage w)),
      wa_requests = wa_requests w
        @ map (\<lambda>u. \<lparr>to = stripNonDigits (phoneNumber u),
                      text_body = TradingSignalText (payloadOf signal)\<rparr>)
            (getAllWhatsappUsers (storage w))\<rparr>"
  by (simp add: sendWhatsAppNotifications_def notifyEach_all)

lemma updateSignalWhatsappSent_frame:
  "whatsappUsers (snd (updateSignalWhatsappSent i st)) = whatsappUsers st"
  "currentSignalId (snd (updateSignalWhatsappSent i st)) = currentSignalId st"
  "map_of (tradingSignals (snd (updateSignalWhatsappSent i st))) k
     = (if k = i then map_option (\<lambda>s. s\<lparr>whatsappSent := True\<rparr>) (map_of (tradingSignals st) i)
        else map_of (tradingSignals st) k)"
  by (auto simp: updateSignalWhatsappSent_def map_of_mutate_key split: option.splits)

lemma saveSignal_subscribers:
  "getAllWhatsappUsers (storage (saveSignal cfg net now s w)) = getAllWhatsappUsers (storage w)"
  by (simp add: saveSignal_def createTradingSignal_def Let_def sendWhatsAppNotifications_eq
        getAllWhatsappUsers_def updateSignalWhatsappSent_frame)




lemma saveSignals_subscribers:
  "getAllWhatsappUsers (storage (saveSignals cfg net now signals w)) = getAllWhatsappUsers (storage w)"
  by (induction signals arbitrary: w) (simp_all add: saveSignal_subscribers)




lemma generateSignals_cases:
  "generateSignals e k w = w
   \<or> (\<exists>signals. (\<forall>s \<in> set signals. 60 \<le> confidence s \<and> confidence s \<le> 98)
         \<and> generateSignals e k w
             = saveSignals (env_whatsapp e) (env_net e) (env_now e) signals w)"
  unfolding generateSignals_def Let_def
  by (auto split: prod.splits zdata.splits sum.splits dest: generated_confidence)




end
